theory Spec2Isabelle
  imports Main "HOL-Library.Word"
begin

section \<open>The CultureCoded JavaScript client, embedded in HOL\<close>

text \<open>
  The client of \<^verbatim>\<open>src/javascript/src\<close> is one class with a constructor, a private
  \<^verbatim>\<open>request\<close> method and eleven public methods that call it. Each method is embedded
  as a HOL function of the same name. The only effect of the class is the call of the
  platform's \<^verbatim>\<open>fetch\<close>: a method therefore takes the network as a function from the request
  to what \<^verbatim>\<open>fetch\<close> answers, and returns the list of the requests it issued together
  with its result, a thrown error being the left summand.

  Strings are byte strings (the UTF-8 encoding of the JavaScript string), but for the
  country handed to \<^verbatim>\<open>getEthnicGroups\<close>, which is the sequence of its UTF-16 code
  units: \<^verbatim>\<open>encodeURIComponent\<close> reads them and throws on an unpaired surrogate. The value
  \<^verbatim>\<open>undefined\<close> of an optional property, and of a result, is \<open>None\<close>.
\<close>

subsection \<open>JSON values as the runtime hands them to the client\<close>

text \<open>
  What \<^verbatim>\<open>response.json()\<close> resolves to. Numbers are kept as integers: the client only
  tests a number for being zero. An object is the list of its properties, each name
  occurring once.
\<close>

datatype json =
    JNull
  | JBool bool
  | JNum int
  | JStr string
  | JArr "json list"
  | JObj "(string \<times> json) list"

text \<open>JavaScript's truthiness, which decides \<^verbatim>\<open>!x\<close> and \<^verbatim>\<open>x || y\<close>.\<close>

fun truthy_json :: "json \<Rightarrow> bool" where
  "truthy_json JNull = False"
| "truthy_json (JBool b) = b"
| "truthy_json (JNum n) = (n \<noteq> 0)"
| "truthy_json (JStr s) = (s \<noteq> [])"
| "truthy_json (JArr xs) = True"
| "truthy_json (JObj kvs) = True"

definition truthy :: "json option \<Rightarrow> bool" where
  "truthy v = (case v of None \<Rightarrow> False | Some j \<Rightarrow> truthy_json j)"

text \<open>Truthiness of an optional string property: \<^verbatim>\<open>undefined\<close> and \<^verbatim>\<open>''\<close> are falsy.\<close>

definition truthy_str :: "string option \<Rightarrow> bool" where
  "truthy_str v = (case v of None \<Rightarrow> False | Some s \<Rightarrow> s \<noteq> [])"

subsection \<open>Errors\<close>

text \<open>
  The client throws plain \<^verbatim>\<open>Error\<close> objects from its guards, and an \<^verbatim>\<open>Error\<close> with the
  fields \<^verbatim>\<open>status\<close> and \<^verbatim>\<open>code\<close> attached for a response that is not ok. The other
  errors come from the platform: the rejection of \<^verbatim>\<open>response.json()\<close> on a body that
  does not parse, the \<^verbatim>\<open>TypeError\<close> of reading a property of \<^verbatim>\<open>null\<close>, the
  \<^verbatim>\<open>URIError\<close> of \<^verbatim>\<open>encodeURIComponent\<close>, and the rejection of \<^verbatim>\<open>fetch\<close> itself.

  \<open>ApiError m s c\<close> is the error built by \<^verbatim>\<open>new Error(m)\<close> with \<^verbatim>\<open>status = s\<close> and
  \<^verbatim>\<open>code = c\<close>; \<open>m\<close> is the argument given to the \<^verbatim>\<open>Error\<close> constructor, which stores
  its string conversion (the string itself when \<open>m\<close> is a string).
\<close>

datatype js_error =
    Error string
  | ApiError json nat "json option"
  | SyntaxError
  | TypeError
  | URIError
  | FetchRejected string

subsection \<open>The data model of \<^verbatim>\<open>types.ts\<close>\<close>

text \<open>
  \<^verbatim>\<open>CultureCodedConfig\<close> declares \<^verbatim>\<open>apiKey\<close> a string, and the constructor tests it for
  being falsy, as a caller passing an unset environment variable makes it: the key is
  optional here, so that a configuration without it is a value.
\<close>

record CultureCodedConfig =
  apiKey :: "string option"
  baseUrl :: "string option"

datatype design_type =
    Landing_page | Mobile_app | Dashboard | Ecommerce
  | Social_media | Email | Advertisement | Other

record AnalyzeDesignOptions =
  imageUrl :: "string option"
  imageBase64 :: "string option"
  targetRegion :: string
  targetCountry :: string
  ethnicGroup :: "string option"
  designType :: design_type
  industry :: "string option"
  additionalContext :: "string option"

datatype export_format = Pdf | Csv | Figma

record ExportOptions =
  analysisId :: string
  format :: export_format
  figmaFileKey :: "string option"

text \<open>The objects a method hands to \<^verbatim>\<open>request\<close> as its \<^verbatim>\<open>body\<close> argument.\<close>

datatype js_object =
    AnalyzeBody AnalyzeDesignOptions
  | ExportBody ExportOptions

subsection \<open>Requests and responses\<close>

datatype http_method = GET | POST | DELETE | PATCH

text \<open>
  The two arguments of \<^verbatim>\<open>fetch\<close>. \<open>req_body\<close> is the object whose \<^verbatim>\<open>JSON.stringify\<close>
  rendering is the body of the request, \<open>None\<close> when \<^verbatim>\<open>options.body\<close> is not set.
\<close>

record http_request =
  req_method :: http_method
  req_url :: string
  req_headers :: "(string \<times> string) list"
  req_body :: "js_object option"

text \<open>
  What the client reads of a response: \<^verbatim>\<open>response.status\<close>, and the outcome of
  \<^verbatim>\<open>response.json()\<close>, \<open>None\<close> when that promise rejects because the body is not JSON.
\<close>

record response =
  status :: nat
  json_body :: "json option"

text \<open>\<^verbatim>\<open>response.ok\<close> of the Fetch standard: the status is in the range 200 to 299.\<close>

definition ok :: "response \<Rightarrow> bool" where
  "ok r = (200 \<le> status r \<and> status r \<le> 299)"

type_synonym network = "http_request \<Rightarrow> string + response"

type_synonym outcome = "http_request list \<times> (js_error + json option)"

subsection \<open>Platform functions the client calls\<close>

text \<open>The decimal rendering of a number in a template literal.\<close>

function string_of_nat :: "nat \<Rightarrow> string" where
  "string_of_nat n =
     (if n < 10 then [char_of (48 + n)]
      else string_of_nat (n div 10) @ [char_of (48 + n mod 10)])"
  by pat_completeness auto
termination
  by (relation "measure (\<lambda>n. n)") auto

declare string_of_nat.simps [simp del]

text \<open>
  Reading the property \<open>k\<close> of a parsed value: a \<^verbatim>\<open>TypeError\<close> on \<^verbatim>\<open>null\<close>, the own
  property of an object, and \<^verbatim>\<open>undefined\<close> on every other value. (The client reads the
  names \<^verbatim>\<open>message\<close> and \<^verbatim>\<open>code\<close> only, which no prototype defines.)
\<close>

fun property :: "json \<Rightarrow> string \<Rightarrow> js_error + json option" where
  "property JNull k = Inl TypeError"
| "property (JObj kvs) k = Inr (map_of kvs k)"
| "property v k = Inr None"

text \<open>
  \<^verbatim>\<open>encodeURIComponent\<close> of ECMAScript, on the UTF-16 code units of its argument. A
  code unit that is a letter, a digit or one of the marks \<^verbatim>\<open>- _ . ! ~ * ' ( )\<close> stays.
  At any other code unit the code point is read: a trailing surrogate, and a leading
  surrogate that no trailing surrogate follows, throw the \<^verbatim>\<open>URIError\<close>; otherwise each
  octet of the UTF-8 encoding of the code point becomes \<^verbatim>\<open>%XX\<close> with two upper-case
  hexadecimal digits.
\<close>

definition uriUnescaped :: "nat \<Rightarrow> bool" where
  "uriUnescaped n =
     ((65 \<le> n \<and> n \<le> 90) \<or> (97 \<le> n \<and> n \<le> 122) \<or> (48 \<le> n \<and> n \<le> 57)
      \<or> n = 45 \<or> n = 95 \<or> n = 46 \<or> n = 33 \<or> n = 126 \<or> n = 42 \<or> n = 39
      \<or> n = 40 \<or> n = 41)"

definition isLeadingSurrogate :: "nat \<Rightarrow> bool" where
  "isLeadingSurrogate u = (0xD800 \<le> u \<and> u \<le> 0xDBFF)"

definition isTrailingSurrogate :: "nat \<Rightarrow> bool" where
  "isTrailingSurrogate u = (0xDC00 \<le> u \<and> u \<le> 0xDFFF)"

definition UTF16SurrogatePairToCodePoint :: "nat \<Rightarrow> nat \<Rightarrow> nat" where
  "UTF16SurrogatePairToCodePoint lead trail =
     (lead - 0xD800) * 0x400 + (trail - 0xDC00) + 0x10000"

definition utf8_octets :: "nat \<Rightarrow> nat list" where
  "utf8_octets cp =
     (if cp < 0x80 then [cp]
      else if cp < 0x800 then [0xC0 + cp div 0x40, 0x80 + cp mod 0x40]
      else if cp < 0x10000
        then [0xE0 + cp div 0x1000, 0x80 + cp div 0x40 mod 0x40, 0x80 + cp mod 0x40]
      else [0xF0 + cp div 0x40000, 0x80 + cp div 0x1000 mod 0x40,
            0x80 + cp div 0x40 mod 0x40, 0x80 + cp mod 0x40])"

definition hex_digit :: "nat \<Rightarrow> char" where
  "hex_digit n = (if n < 10 then char_of (48 + n) else char_of (55 + n))"

definition escape_octet :: "nat \<Rightarrow> string" where
  "escape_octet b = [CHR ''%'', hex_digit (b div 16), hex_digit (b mod 16)]"

definition escape_code_point :: "nat \<Rightarrow> string" where
  "escape_code_point cp = concat (map escape_octet (utf8_octets cp))"

fun Encode :: "nat list \<Rightarrow> js_error + string" where
  "Encode [] = Inr []"
| "Encode (c # cs) =
     (if uriUnescaped c
      then (case Encode cs of Inl e \<Rightarrow> Inl e | Inr r \<Rightarrow> Inr (char_of c # r))
      else if isTrailingSurrogate c then Inl URIError
      else if isLeadingSurrogate c
        then (case cs of
                [] \<Rightarrow> Inl URIError
              | d # ds \<Rightarrow>
                  if isTrailingSurrogate d
                  then (case Encode ds of
                          Inl e \<Rightarrow> Inl e
                        | Inr r \<Rightarrow>
                            Inr (escape_code_point (UTF16SurrogatePairToCodePoint c d) @ r))
                  else Inl URIError)
      else (case Encode cs of
              Inl e \<Rightarrow> Inl e
            | Inr r \<Rightarrow> Inr (escape_code_point c @ r)))"

definition encodeURIComponent :: "16 word list \<Rightarrow> js_error + string" where
  "encodeURIComponent s = Encode (map unat s)"

subsection \<open>The class \<^verbatim>\<open>CultureCoded\<close>\<close>

record CultureCoded =
  this_apiKey :: string
  this_baseUrl :: string

definition constructor :: "CultureCodedConfig \<Rightarrow> js_error + CultureCoded" where
  "constructor config =
     (if \<not> truthy_str (apiKey config)
      then Inl (Error ''API key is required. Get one at https://culturecoded.io/api-docs'')
      else Inr \<lparr> this_apiKey = (case apiKey config of Some k \<Rightarrow> k | None \<Rightarrow> []),
                 this_baseUrl = (if truthy_str (baseUrl config)
                                 then (case baseUrl config of Some u \<Rightarrow> u | None \<Rightarrow> [])
                                 else ''https://culturecoded.replit.app'') \<rparr>)"

text \<open>The throw of \<^verbatim>\<open>request\<close> for a response that is not ok.\<close>

definition error_of_response :: "response \<Rightarrow> js_error" where
  "error_of_response r =
     (let errorData = (case json_body r of None \<Rightarrow> JObj [] | Some v \<Rightarrow> v)
      in case property errorData ''message'' of
           Inl e \<Rightarrow> e
         | Inr message \<Rightarrow>
             (case property errorData ''code'' of
                Inl e \<Rightarrow> e
              | Inr code \<Rightarrow>
                  ApiError
                    (if truthy message
                     then (case message of Some m \<Rightarrow> m | None \<Rightarrow> JNull)
                     else JStr (''Request failed with status '' @ string_of_nat (status r)))
                    (status r) code))"

definition request ::
    "CultureCoded \<Rightarrow> network \<Rightarrow> http_method \<Rightarrow> string \<Rightarrow> js_object option \<Rightarrow> outcome" where
  "request this fetch method path body =
     (let url = this_baseUrl this @ path;
          headers = [(''x-api-key'', this_apiKey this),
                     (''Content-Type'', ''application/json''),
                     (''User-Agent'', ''culturecoded-sdk-js/1.0.0'')];
          options = \<lparr> req_method = method, req_url = url, req_headers = headers,
                      req_body = (if body \<noteq> None \<and> (method = POST \<or> method = PATCH)
                                  then body else None) \<rparr>
      in ([options],
          case fetch options of
            Inl reason \<Rightarrow> Inl (FetchRejected reason)
          | Inr response \<Rightarrow>
              if \<not> ok response then Inl (error_of_response response)
              else if status response = 204 then Inr None
              else (case json_body response of
                      None \<Rightarrow> Inl SyntaxError
                    | Some v \<Rightarrow> Inr (Some v))))"

definition analyzeDesign :: "CultureCoded \<Rightarrow> network \<Rightarrow> AnalyzeDesignOptions \<Rightarrow> outcome" where
  "analyzeDesign this fetch options =
     (if \<not> truthy_str (imageUrl options) \<and> \<not> truthy_str (imageBase64 options)
      then ([], Inl (Error ''Either imageUrl or imageBase64 is required''))
      else request this fetch POST ''/api/v1/analyze'' (Some (AnalyzeBody options)))"

definition getAnalyses :: "CultureCoded \<Rightarrow> network \<Rightarrow> outcome" where
  "getAnalyses this fetch = request this fetch GET ''/api/v1/analyses'' None"

definition getAnalysis :: "CultureCoded \<Rightarrow> network \<Rightarrow> string \<Rightarrow> outcome" where
  "getAnalysis this fetch id' = request this fetch GET (''/api/v1/analyses/'' @ id') None"

text \<open>\<^verbatim>\<open>deleteAnalysis\<close> awaits the request and returns nothing.\<close>

definition deleteAnalysis :: "CultureCoded \<Rightarrow> network \<Rightarrow> string \<Rightarrow> outcome" where
  "deleteAnalysis this fetch id' =
     (case request this fetch DELETE (''/api/v1/analyses/'' @ id') None of
        (sent, Inl e) \<Rightarrow> (sent, Inl e)
      | (sent, Inr v) \<Rightarrow> (sent, Inr None))"

text \<open>
  The template literal of \<^verbatim>\<open>getEthnicGroups\<close> is evaluated before \<^verbatim>\<open>request\<close> is
  called: when \<^verbatim>\<open>encodeURIComponent\<close> throws, the method fails with no request issued.
\<close>

definition getEthnicGroups ::
    "CultureCoded \<Rightarrow> network \<Rightarrow> 16 word list \<Rightarrow> outcome" where
  "getEthnicGroups this fetch country =
     (case encodeURIComponent country of
        Inl e \<Rightarrow> ([], Inl e)
      | Inr segment \<Rightarrow>
          request this fetch GET (''/api/v1/ethnic-groups/'' @ segment) None)"

definition getRegions :: "CultureCoded \<Rightarrow> network \<Rightarrow> outcome" where
  "getRegions this fetch = request this fetch GET ''/api/v1/regions'' None"

definition exportAnalysis :: "CultureCoded \<Rightarrow> network \<Rightarrow> ExportOptions \<Rightarrow> outcome" where
  "exportAnalysis this fetch options =
     (if format options = Figma \<and> \<not> truthy_str (figmaFileKey options)
      then ([], Inl (Error ''figmaFileKey is required for Figma exports''))
      else request this fetch POST ''/api/v1/exports'' (Some (ExportBody options)))"

definition exportToFigma :: "CultureCoded \<Rightarrow> network \<Rightarrow> string \<Rightarrow> string \<Rightarrow> outcome" where
  "exportToFigma this fetch analysisId' figmaFileKey' =
     exportAnalysis this fetch
       \<lparr> analysisId = analysisId', format = Figma, figmaFileKey = Some figmaFileKey' \<rparr>"

definition getExports :: "CultureCoded \<Rightarrow> network \<Rightarrow> outcome" where
  "getExports this fetch = request this fetch GET ''/api/v1/exports'' None"

definition getUser :: "CultureCoded \<Rightarrow> network \<Rightarrow> outcome" where
  "getUser this fetch = request this fetch GET ''/api/v1/user'' None"

definition getUsage :: "CultureCoded \<Rightarrow> network \<Rightarrow> outcome" where
  "getUsage this fetch = request this fetch GET ''/api/v1/stats'' None"

subsection \<open>A call of any public method\<close>

text \<open>
  The eleven public methods with their arguments, and the method each one names, so that
  a statement about every operation is a statement about every \<open>call\<close>.
\<close>

datatype call =
    AnalyzeDesign AnalyzeDesignOptions
  | GetAnalyses
  | GetAnalysis string
  | DeleteAnalysis string
  | GetEthnicGroups "16 word list"
  | GetRegions
  | ExportAnalysis ExportOptions
  | ExportToFigma string string
  | GetExports
  | GetUser
  | GetUsage

fun invoke :: "CultureCoded \<Rightarrow> network \<Rightarrow> call \<Rightarrow> outcome" where
  "invoke this fetch (AnalyzeDesign options) = analyzeDesign this fetch options"
| "invoke this fetch GetAnalyses = getAnalyses this fetch"
| "invoke this fetch (GetAnalysis id') = getAnalysis this fetch id'"
| "invoke this fetch (DeleteAnalysis id') = deleteAnalysis this fetch id'"
| "invoke this fetch (GetEthnicGroups country) = getEthnicGroups this fetch country"
| "invoke this fetch GetRegions = getRegions this fetch"
| "invoke this fetch (ExportAnalysis options) = exportAnalysis this fetch options"
| "invoke this fetch (ExportToFigma id' key) = exportToFigma this fetch id' key"
| "invoke this fetch GetExports = getExports this fetch"
| "invoke this fetch GetUser = getUser this fetch"
| "invoke this fetch GetUsage = getUsage this fetch"

subsection \<open>The operation table\<close>

text \<open>
  What each public method does before it calls \<^verbatim>\<open>request\<close>, read off the eleven method
  bodies: the error it throws there, or else the method and the path it passes on; and
  the object it passes as the body. The theorems below compare the two tables with what
  \<open>invoke\<close> does.
\<close>

fun operation_route :: "call \<Rightarrow> js_error + (http_method \<times> string)" where
  "operation_route (AnalyzeDesign options) =
     (if \<not> truthy_str (imageUrl options) \<and> \<not> truthy_str (imageBase64 options)
      then Inl (Error ''Either imageUrl or imageBase64 is required'')
      else Inr (POST, ''/api/v1/analyze''))"
| "operation_route GetAnalyses = Inr (GET, ''/api/v1/analyses'')"
| "operation_route (GetAnalysis id') = Inr (GET, ''/api/v1/analyses/'' @ id')"
| "operation_route (DeleteAnalysis id') = Inr (DELETE, ''/api/v1/analyses/'' @ id')"
| "operation_route (GetEthnicGroups country) =
     (case encodeURIComponent country of
        Inl e \<Rightarrow> Inl e
      | Inr segment \<Rightarrow> Inr (GET, ''/api/v1/ethnic-groups/'' @ segment))"
| "operation_route GetRegions = Inr (GET, ''/api/v1/regions'')"
| "operation_route (ExportAnalysis options) =
     (if format options = Figma \<and> \<not> truthy_str (figmaFileKey options)
      then Inl (Error ''figmaFileKey is required for Figma exports'')
      else Inr (POST, ''/api/v1/exports''))"
| "operation_route (ExportToFigma id' key) =
     (if key = [] then Inl (Error ''figmaFileKey is required for Figma exports'')
      else Inr (POST, ''/api/v1/exports''))"
| "operation_route GetExports = Inr (GET, ''/api/v1/exports'')"
| "operation_route GetUser = Inr (GET, ''/api/v1/user'')"
| "operation_route GetUsage = Inr (GET, ''/api/v1/stats'')"

fun typed_input :: "call \<Rightarrow> js_object option" where
  "typed_input (AnalyzeDesign options) = Some (AnalyzeBody options)"
| "typed_input (ExportAnalysis options) = Some (ExportBody options)"
| "typed_input (ExportToFigma id' key) =
     Some (ExportBody \<lparr> analysisId = id', format = Figma, figmaFileKey = Some key \<rparr>)"
| "typed_input op = None"

subsection \<open>Reading an escaped path segment back\<close>

text \<open>
  The receiving side of \<open>encodeURIComponent\<close>, used to state that a country name
  round-trips. \<open>escaped_segment\<close> recognises a sequence of unescaped characters and
  \<^verbatim>\<open>%XX\<close> triplets. \<open>decode_segment\<close> turns each triplet back into its octet, failing
  on a \<^verbatim>\<open>%\<close> that two hexadecimal digits do not follow, reads the octets as UTF-8 and
  gives the UTF-16 code units of the code points. \<open>well_formed\<close> holds of a sequence of
  code units in which every surrogate is paired.
\<close>

definition is_hex :: "char \<Rightarrow> bool" where
  "is_hex c =
     (let n = (of_char c :: nat)
      in (48 \<le> n \<and> n \<le> 57) \<or> (65 \<le> n \<and> n \<le> 70) \<or> (97 \<le> n \<and> n \<le> 102))"

definition hex_val :: "char \<Rightarrow> nat" where
  "hex_val c =
     (let n = (of_char c :: nat)
      in if n \<le> 57 then n - 48 else if n \<le> 70 then n - 55 else n - 87)"

fun percent_decode :: "string \<Rightarrow> nat list option" where
  "percent_decode [] = Some []"
| "percent_decode (c # cs) =
     (if c = CHR ''%''
      then (case cs of
              h # l # rest \<Rightarrow>
                if is_hex h \<and> is_hex l
                then map_option ((#) (16 * hex_val h + hex_val l)) (percent_decode rest)
                else None
            | _ \<Rightarrow> None)
      else map_option ((#) (of_char c)) (percent_decode cs))"

definition continuation :: "nat \<Rightarrow> bool" where
  "continuation b = (0x80 \<le> b \<and> b < 0xC0)"

fun utf8_decode :: "nat list \<Rightarrow> nat list option" where
  "utf8_decode [] = Some []"
| "utf8_decode (b # bs) =
     (if b < 0x80 then map_option ((#) b) (utf8_decode bs)
      else if b < 0xC0 then None
      else if b < 0xE0
        then (case bs of
                b1 # rest \<Rightarrow>
                  if continuation b1
                  then map_option ((#) ((b - 0xC0) * 0x40 + (b1 - 0x80))) (utf8_decode rest)
                  else None
              | _ \<Rightarrow> None)
      else if b < 0xF0
        then (case bs of
                b1 # b2 # rest \<Rightarrow>
                  if continuation b1 \<and> continuation b2
                  then map_option
                         ((#) ((b - 0xE0) * 0x1000 + (b1 - 0x80) * 0x40 + (b2 - 0x80)))
                         (utf8_decode rest)
                  else None
              | _ \<Rightarrow> None)
      else if b < 0xF8
        then (case bs of
                b1 # b2 # b3 # rest \<Rightarrow>
                  if continuation b1 \<and> continuation b2 \<and> continuation b3
                  then map_option
                         ((#) ((b - 0xF0) * 0x40000 + (b1 - 0x80) * 0x1000
                               + (b2 - 0x80) * 0x40 + (b3 - 0x80)))
                         (utf8_decode rest)
                  else None
              | _ \<Rightarrow> None)
      else None)"

definition utf16_units :: "nat \<Rightarrow> nat list" where
  "utf16_units cp =
     (if cp < 0x10000 then [cp]
      else [0xD800 + (cp - 0x10000) div 0x400, 0xDC00 + (cp - 0x10000) mod 0x400])"

definition decode_units :: "string \<Rightarrow> nat list option" where
  "decode_units s =
     (case percent_decode s of
        None \<Rightarrow> None
      | Some octets \<Rightarrow>
          (case utf8_decode octets of
             None \<Rightarrow> None
           | Some cps \<Rightarrow> Some (concat (map utf16_units cps))))"

definition decode_segment :: "string \<Rightarrow> 16 word list option" where
  "decode_segment s = map_option (map word_of_nat) (decode_units s)"

fun escaped_segment :: "string \<Rightarrow> bool" where
  "escaped_segment [] = True"
| "escaped_segment (c # cs) =
     (if c = CHR ''%''
      then (case cs of
              h # l # rest \<Rightarrow> is_hex h \<and> is_hex l \<and> escaped_segment rest
            | _ \<Rightarrow> False)
      else uriUnescaped (of_char c) \<and> escaped_segment cs)"

fun well_formed :: "nat list \<Rightarrow> bool" where
  "well_formed [] = True"
| "well_formed (c # cs) =
     (if isLeadingSurrogate c
      then (case cs of [] \<Rightarrow> False | d # ds \<Rightarrow> isTrailingSurrogate d \<and> well_formed ds)
      else \<not> isTrailingSurrogate c \<and> well_formed cs)"

subsection \<open>Sample values\<close>

definition sample_client :: CultureCoded where
  "sample_client =
     \<lparr> this_apiKey = ''cc_live_key'', this_baseUrl = ''https://staging.example.com'' \<rparr>"

text \<open>A network that answers every request with the same response.\<close>

definition respond_with :: "response \<Rightarrow> network" where
  "respond_with r = (\<lambda>request. Inr r)"

definition sample_headers :: "(string \<times> string) list" where
  "sample_headers = [(''x-api-key'', ''cc_live_key''),
                     (''Content-Type'', ''application/json''),
                     (''User-Agent'', ''culturecoded-sdk-js/1.0.0'')]"

definition both_images :: AnalyzeDesignOptions where
  "both_images = \<lparr> imageUrl = Some ''https://example.com/design.png'',
                    imageBase64 = Some ''iVBORw0KGgo='',
                    targetRegion = ''Africa'', targetCountry = ''Nigeria'',
                    ethnicGroup = None, designType = Landing_page,
                    industry = None, additionalContext = None \<rparr>"

definition no_image :: AnalyzeDesignOptions where
  "no_image = \<lparr> imageUrl = None, imageBase64 = Some [],
                 targetRegion = ''Africa'', targetCountry = ''Nigeria'',
                 ethnicGroup = None, designType = Landing_page,
                 industry = None, additionalContext = None \<rparr>"

text \<open>
  The country name Sao Tome, written with the tilde on its \<^verbatim>\<open>a\<close> and the acute accent on
  its \<^verbatim>\<open>e\<close>, as UTF-16 code units.
\<close>

definition sao_tome :: "16 word list" where
  "sao_tome = [0x53, 0xE3, 0x6F, 0x20, 0x54, 0x6F, 0x6D, 0xE9]"

section \<open>Properties\<close>

subsection \<open>Auxiliary facts\<close>

lemma request_sent:
  "fst (request this fetch method path body) =
     [\<lparr> req_method = method, req_url = this_baseUrl this @ path,
        req_headers = [(''x-api-key'', this_apiKey this),
                       (''Content-Type'', ''application/json''),
                       (''User-Agent'', ''culturecoded-sdk-js/1.0.0'')],
        req_body = (if method = POST \<or> method = PATCH then body else None) \<rparr>]"
  by (cases body) (simp_all add: request_def Let_def)

lemma deleteAnalysis_sent:
  "fst (deleteAnalysis this fetch id') =
     fst (request this fetch DELETE (''/api/v1/analyses/'' @ id') None)"
  by (simp add: deleteAnalysis_def split: prod.splits sum.splits)

lemma property_Inl: "property v k = Inl e \<Longrightarrow> e = TypeError"
  by (cases v) auto

lemma error_of_response_not_plain: "error_of_response r \<noteq> Error m"
  by (auto simp: error_of_response_def Let_def split: sum.splits dest: property_Inl)

lemma request_no_plain_error:
  "snd (request this fetch method path body) \<noteq> Inl (Error m)"
  by (simp add: request_def Let_def error_of_response_not_plain
        split: sum.splits option.splits)

lemma invoke_sent:
  "fst (invoke this fetch op) =
     (case operation_route op of
        Inl e \<Rightarrow> []
      | Inr (method, path) \<Rightarrow>
          [\<lparr> req_method = method, req_url = this_baseUrl this @ path,
             req_headers = [(''x-api-key'', this_apiKey this),
                            (''Content-Type'', ''application/json''),
                            (''User-Agent'', ''culturecoded-sdk-js/1.0.0'')],
             req_body = typed_input op \<rparr>])"
  by (cases op)
     (simp_all add: deleteAnalysis_sent analyzeDesign_def getAnalyses_def getAnalysis_def
        getEthnicGroups_def getRegions_def exportAnalysis_def exportToFigma_def
        getExports_def getUser_def getUsage_def request_sent truthy_str_def
        split: sum.splits)

lemma invoke_rejected:
  "operation_route op = Inl e \<Longrightarrow> invoke this fetch op = ([], Inl e)"
  by (cases op)
     (simp_all add: analyzeDesign_def getEthnicGroups_def exportAnalysis_def
        exportToFigma_def truthy_str_def split: if_splits sum.splits)

lemma operation_route_slash:
  "operation_route op = Inr (method, path) \<Longrightarrow> \<exists>rest. path = CHR ''/'' # rest"
  by (cases op) (auto split: if_splits sum.splits)

lemma request_result:
  "snd (request this fetch method path body) =
     (case fetch \<lparr> req_method = method, req_url = this_baseUrl this @ path,
                    req_headers = [(''x-api-key'', this_apiKey this),
                                   (''Content-Type'', ''application/json''),
                                   (''User-Agent'', ''culturecoded-sdk-js/1.0.0'')],
                    req_body = (if method = POST \<or> method = PATCH then body else None) \<rparr> of
        Inl reason \<Rightarrow> Inl (FetchRejected reason)
      | Inr r \<Rightarrow>
          if \<not> ok r then Inl (error_of_response r)
          else if status r = 204 then Inr None
          else (case json_body r of None \<Rightarrow> Inl SyntaxError | Some v \<Rightarrow> Inr (Some v)))"
  by (cases body) (simp_all add: request_def Let_def)

lemma deleteAnalysis_result:
  "snd (deleteAnalysis this fetch id') =
     (case snd (request this fetch DELETE (''/api/v1/analyses/'' @ id') None) of
        Inl e \<Rightarrow> Inl e
      | Inr v \<Rightarrow> Inr None)"
  by (simp add: deleteAnalysis_def split: prod.splits sum.splits)

lemma invoke_as_request:
  assumes "operation_route op = Inr (method, path)"
  shows "fst (invoke this fetch op) = fst (request this fetch method path (typed_input op))"
    and "snd (invoke this fetch op) =
      (case op of
         DeleteAnalysis id' \<Rightarrow>
           (case snd (request this fetch method path (typed_input op)) of
              Inl e \<Rightarrow> Inl e
            | Inr v \<Rightarrow> Inr None)
       | _ \<Rightarrow> snd (request this fetch method path (typed_input op)))"
  using assms
  by (cases op;
      auto simp: analyzeDesign_def getAnalyses_def getAnalysis_def getEthnicGroups_def
        getRegions_def exportAnalysis_def exportToFigma_def getExports_def getUser_def
        getUsage_def deleteAnalysis_sent deleteAnalysis_result truthy_str_def
        split: if_splits sum.splits)+

text \<open>
  What a call makes of the answer of \<^verbatim>\<open>fetch\<close> to the one request it issued: the
  result of \<^verbatim>\<open>request\<close>, which \<^verbatim>\<open>deleteAnalysis\<close> replaces by \<^verbatim>\<open>undefined\<close> when it is
  not an error.
\<close>

lemma invoke_result:
  assumes "fst (invoke this fetch op) = [req]"
  shows "snd (invoke this fetch op) =
     (case fetch req of
        Inl reason \<Rightarrow> Inl (FetchRejected reason)
      | Inr r \<Rightarrow>
          if \<not> ok r then Inl (error_of_response r)
          else if status r = 204 then Inr None
          else (case json_body r of
                  None \<Rightarrow> Inl SyntaxError
                | Some v \<Rightarrow> (case op of DeleteAnalysis id' \<Rightarrow> Inr None | _ \<Rightarrow> Inr (Some v))))"
proof -
  from assms obtain verb route_path where route: "operation_route op = Inr (verb, route_path)"
    by (cases "operation_route op") (auto simp: invoke_sent)
  from assms have "fst (request this fetch verb route_path (typed_input op)) = [req]"
    by (simp add: invoke_as_request(1) [OF route])
  then have req: "\<lparr> req_method = verb, req_url = this_baseUrl this @ route_path,
        req_headers = [(''x-api-key'', this_apiKey this),
                       (''Content-Type'', ''application/json''),
                       (''User-Agent'', ''culturecoded-sdk-js/1.0.0'')],
        req_body = (if verb = POST \<or> verb = PATCH then typed_input op else None) \<rparr>
      = req"
    by (simp add: request_sent)
  have answer: "snd (request this fetch verb route_path (typed_input op)) =
     (case fetch req of
        Inl reason \<Rightarrow> Inl (FetchRejected reason)
      | Inr r \<Rightarrow>
          if \<not> ok r then Inl (error_of_response r)
          else if status r = 204 then Inr None
          else (case json_body r of None \<Rightarrow> Inl SyntaxError | Some v \<Rightarrow> Inr (Some v)))"
    by (simp only: request_result req)
  show ?thesis
    unfolding invoke_as_request(2) [OF route] answer
    by (cases op) (simp_all split: sum.splits option.splits)
qed

lemma uriUnescaped_ascii: "uriUnescaped c \<Longrightarrow> c < 0x80"
  by (auto simp: uriUnescaped_def)

lemma uriUnescaped_not_surrogate:
  "uriUnescaped c \<Longrightarrow> \<not> isLeadingSurrogate c \<and> \<not> isTrailingSurrogate c"
  by (auto simp: uriUnescaped_def isLeadingSurrogate_def isTrailingSurrogate_def)

lemma Encode_unescaped:
  "uriUnescaped c \<Longrightarrow>
   Encode (c # cs) = (case Encode cs of Inl e \<Rightarrow> Inl e | Inr r \<Rightarrow> Inr (char_of c # r))"
  by simp

lemma Encode_trailing:
  "\<not> uriUnescaped c \<Longrightarrow> isTrailingSurrogate c \<Longrightarrow> Encode (c # cs) = Inl URIError"
  by simp

lemma Encode_leading_last:
  "\<not> uriUnescaped c \<Longrightarrow> isLeadingSurrogate c \<Longrightarrow> Encode [c] = Inl URIError"
  by simp

lemma Encode_leading_unpaired:
  "\<not> uriUnescaped c \<Longrightarrow> isLeadingSurrogate c \<Longrightarrow> \<not> isTrailingSurrogate d \<Longrightarrow>
   Encode (c # d # ds) = Inl URIError"
  by simp

lemma Encode_pair:
  "\<not> uriUnescaped c \<Longrightarrow> \<not> isTrailingSurrogate c \<Longrightarrow> isLeadingSurrogate c \<Longrightarrow>
   isTrailingSurrogate d \<Longrightarrow>
   Encode (c # d # ds) =
     (case Encode ds of
        Inl e \<Rightarrow> Inl e
      | Inr r \<Rightarrow> Inr (escape_code_point (UTF16SurrogatePairToCodePoint c d) @ r))"
  by simp

lemma Encode_other:
  "\<not> uriUnescaped c \<Longrightarrow> \<not> isTrailingSurrogate c \<Longrightarrow> \<not> isLeadingSurrogate c \<Longrightarrow>
   Encode (c # cs) =
     (case Encode cs of Inl e \<Rightarrow> Inl e | Inr r \<Rightarrow> Inr (escape_code_point c @ r))"
  by simp

declare Encode.simps(2) [simp del]

lemma Encode_well_formed: "(\<exists>r. Encode us = Inr r) = well_formed us"
proof (induction us rule: Encode.induct)
  case 1
  show ?case by simp
next
  case (2 c cs)
  consider (unescaped) "uriUnescaped c"
    | (trailing) "\<not> uriUnescaped c" "isTrailingSurrogate c"
    | (leading) "\<not> uriUnescaped c" "\<not> isTrailingSurrogate c" "isLeadingSurrogate c"
    | (other) "\<not> uriUnescaped c" "\<not> isTrailingSurrogate c" "\<not> isLeadingSurrogate c"
    by blast
  then show ?case
  proof cases
    case unescaped
    with "2.IH"(1) show ?thesis
      by (cases "Encode cs") (simp_all add: Encode_unescaped uriUnescaped_not_surrogate)
  next
    case trailing
    then have "\<not> isLeadingSurrogate c"
      by (simp add: isLeadingSurrogate_def isTrailingSurrogate_def)
    with trailing show ?thesis
      by (simp add: Encode_trailing)
  next
    case leading
    show ?thesis
    proof (cases cs)
      case Nil
      with leading show ?thesis
        by (simp add: Encode_leading_last)
    next
      case (Cons d ds)
      show ?thesis
      proof (cases "isTrailingSurrogate d")
        case True
        with leading Cons "2.IH"(2) [of d ds] show ?thesis
          by (cases "Encode ds") (simp_all add: Encode_pair)
      next
        case False
        with leading Cons show ?thesis
          by (simp add: Encode_leading_unpaired)
      qed
    qed
  next
    case other
    with "2.IH"(3) show ?thesis
      by (cases "Encode cs") (simp_all add: Encode_other)
  qed
qed

lemma Encode_fails: "Encode us = Inl e \<Longrightarrow> e = URIError"
proof (induction us rule: Encode.induct)
  case 1
  then show ?case by simp
next
  case (2 c cs)
  consider (unescaped) "uriUnescaped c"
    | (trailing) "\<not> uriUnescaped c" "isTrailingSurrogate c"
    | (leading) "\<not> uriUnescaped c" "\<not> isTrailingSurrogate c" "isLeadingSurrogate c"
    | (other) "\<not> uriUnescaped c" "\<not> isTrailingSurrogate c" "\<not> isLeadingSurrogate c"
    by blast
  then show ?case
  proof cases
    case unescaped
    with "2.IH"(1) "2.prems" show ?thesis
      by (simp add: Encode_unescaped split: sum.splits)
  next
    case trailing
    with "2.prems" show ?thesis
      by (simp add: Encode_trailing)
  next
    case leading
    show ?thesis
    proof (cases cs)
      case Nil
      with leading "2.prems" show ?thesis
        by (simp add: Encode_leading_last)
    next
      case (Cons d ds)
      show ?thesis
      proof (cases "isTrailingSurrogate d")
        case True
        with leading Cons "2.IH"(2) [of d ds] "2.prems" show ?thesis
          by (simp add: Encode_pair split: sum.splits)
      next
        case False
        with leading Cons "2.prems" show ?thesis
          by (simp add: Encode_leading_unpaired)
      qed
    qed
  next
    case other
    with "2.IH"(3) "2.prems" show ?thesis
      by (simp add: Encode_other split: sum.splits)
  qed
qed

lemma is_hex_hex_digit: "n < 16 \<Longrightarrow> is_hex (hex_digit n)"
  by (auto simp: is_hex_def hex_digit_def)

lemma hex_val_hex_digit: "n < 16 \<Longrightarrow> hex_val (hex_digit n) = n"
  by (auto simp: hex_val_def hex_digit_def)

lemma percent_decode_escape_octet:
  "b < 256 \<Longrightarrow> percent_decode (escape_octet b @ r) = map_option ((#) b) (percent_decode r)"
  by (simp add: escape_octet_def is_hex_hex_digit hex_val_hex_digit less_mult_imp_div_less)

lemma percent_decode_escape_octets:
  "\<forall>b\<in>set bs. b < 256 \<Longrightarrow>
   percent_decode (concat (map escape_octet bs) @ r) = map_option ((@) bs) (percent_decode r)"
  by (induction bs) (cases "percent_decode r"; simp add: percent_decode_escape_octet)+

lemma utf8_octets_bytes: "cp < 0x200000 \<Longrightarrow> \<forall>b\<in>set (utf8_octets cp). b < 256"
  by (auto simp: utf8_octets_def)

lemma percent_decode_escape_code_point:
  "cp < 0x200000 \<Longrightarrow>
   percent_decode (escape_code_point cp @ r) = map_option ((@) (utf8_octets cp)) (percent_decode r)"
  by (simp add: escape_code_point_def percent_decode_escape_octets utf8_octets_bytes)

lemma percent_decode_unescaped:
  "uriUnescaped c \<Longrightarrow>
   percent_decode (char_of c # r) = map_option ((#) c) (percent_decode r)"
  by (auto simp: uriUnescaped_def char_of_eq_iff take_bit_nat_eq_self)

lemma recombine3: "cp div 4096 * 4096 + cp div 64 mod 64 * 64 + cp mod 64 = (cp::nat)"
proof -
  have linear: "A * 4096 + Y * 64 + Z = n"
    if "A = X" and "B = X * 64 + Y" and "n = B * 64 + Z" for A B X Y Z n :: nat
    using that by simp
  have "cp div 4096 = cp div 64 div 64"
    using div_mult2_eq [of cp 64 64] by simp
  moreover have "cp div 64 = cp div 64 div 64 * 64 + cp div 64 mod 64"
    by simp
  moreover have "cp = cp div 64 * 64 + cp mod 64"
    by simp
  ultimately show ?thesis
    by (rule linear)
qed

lemma recombine4:
  "cp div 262144 * 262144 + cp div 4096 mod 64 * 4096 + cp div 64 mod 64 * 64 + cp mod 64
     = (cp::nat)"
proof -
  have linear: "A * 262144 + Y * 4096 + Z = n"
    if "A = X" and "B = X * 64 + Y" and "n = B * 4096 + Z" for A B X Y Z n :: nat
    using that by simp
  have "cp div 262144 = cp div 4096 div 64"
    using div_mult2_eq [of cp 4096 64] by simp
  moreover have "cp div 4096 = cp div 4096 div 64 * 64 + cp div 4096 mod 64"
    by simp
  moreover have "cp = cp div 4096 * 4096 + (cp div 64 mod 64 * 64 + cp mod 64)"
    using recombine3 [of cp] by simp
  ultimately have "cp div 262144 * 262144 + cp div 4096 mod 64 * 4096
      + (cp div 64 mod 64 * 64 + cp mod 64) = cp"
    by (rule linear)
  then show ?thesis
    by simp
qed

lemma utf8_decode_octets:
  assumes "cp < 0x200000"
  shows "utf8_decode (utf8_octets cp @ bs) = map_option ((#) cp) (utf8_decode bs)"
proof -
  consider (one) "cp < 0x80" | (two) "0x80 \<le> cp" "cp < 0x800"
    | (three) "0x800 \<le> cp" "cp < 0x10000" | (four) "0x10000 \<le> cp"
    by linarith
  then show ?thesis
  proof cases
    case one
    then show ?thesis
      by (simp add: utf8_octets_def)
  next
    case two
    have "cp div 64 < 32"
      using two(2) less_mult_imp_div_less [of cp 32 64] by simp
    with two show ?thesis
      by (simp add: utf8_octets_def continuation_def)
  next
    case three
    have "cp div 4096 < 16"
      using three(2) less_mult_imp_div_less [of cp 16 4096] by simp
    with three show ?thesis
      by (simp add: utf8_octets_def continuation_def recombine3)
  next
    case four
    have "cp div 262144 < 8"
      using assms less_mult_imp_div_less [of cp 8 262144] by simp
    with four show ?thesis
      by (simp add: utf8_octets_def continuation_def recombine4)
  qed
qed

lemma decode_units_unescaped:
  assumes "uriUnescaped c"
  shows "decode_units (char_of c # r) = map_option ((#) c) (decode_units r)"
proof -
  from assms have ascii: "c < 0x80"
    by (rule uriUnescaped_ascii)
  then have unit: "utf16_units c = [c]"
    by (simp add: utf16_units_def)
  have "decode_units (char_of c # r) =
     (case map_option ((#) c) (percent_decode r) of
        None \<Rightarrow> None
      | Some octets \<Rightarrow>
          (case utf8_decode octets of
             None \<Rightarrow> None
           | Some cps \<Rightarrow> Some (concat (map utf16_units cps))))"
    by (simp only: decode_units_def percent_decode_unescaped [OF assms])
  also have "\<dots> = map_option ((#) c) (decode_units r)"
    using ascii unit by (simp add: decode_units_def split: option.splits)
  finally show ?thesis .
qed

lemma decode_units_escape_code_point:
  assumes "cp < 0x200000"
  shows "decode_units (escape_code_point cp @ r) =
     map_option ((@) (utf16_units cp)) (decode_units r)"
proof (cases "percent_decode r")
  case None
  with assms show ?thesis
    by (simp add: decode_units_def percent_decode_escape_code_point)
next
  case (Some octets)
  with assms show ?thesis
    by (cases "utf8_decode octets")
       (simp_all add: decode_units_def percent_decode_escape_code_point utf8_decode_octets)
qed

lemma surrogate_pair:
  assumes "isLeadingSurrogate c" and "isTrailingSurrogate d"
  shows "UTF16SurrogatePairToCodePoint c d < 0x200000"
    and "utf16_units (UTF16SurrogatePairToCodePoint c d) = [c, d]"
proof -
  define h where "h = c - 0xD800"
  define l where "l = d - 0xDC00"
  from assms have c: "c = 0xD800 + h" and h: "h < 0x400"
    unfolding h_def isLeadingSurrogate_def by linarith+
  from assms have d: "d = 0xDC00 + l" and l: "l < 0x400"
    unfolding l_def isTrailingSurrogate_def by linarith+
  have cp: "UTF16SurrogatePairToCodePoint c d = h * 0x400 + l + 0x10000"
    by (simp add: UTF16SurrogatePairToCodePoint_def c d)
  from h l show "UTF16SurrogatePairToCodePoint c d < 0x200000"
    unfolding cp by simp
  from l have "(h * 0x400 + l) div 0x400 = h" and "(h * 0x400 + l) mod 0x400 = l"
    by simp_all
  then have "utf16_units (h * 0x400 + l + 0x10000) = [0xD800 + h, 0xDC00 + l]"
    by (simp add: utf16_units_def)
  then show "utf16_units (UTF16SurrogatePairToCodePoint c d) = [c, d]"
    unfolding cp by (simp only: c d)
qed

lemma escaped_segment_unescaped:
  assumes "uriUnescaped c"
  shows "escaped_segment (char_of c # r) = escaped_segment r"
proof -
  from assms have "c < 0x80" and "c \<noteq> 37"
    by (auto simp: uriUnescaped_def)
  then have "char_of c \<noteq> CHR ''%''" and "of_char (char_of c) = c"
    by (simp_all add: char_of_eq_iff take_bit_nat_eq_self)
  with assms show ?thesis
    by simp
qed

lemma escaped_segment_escape_octets:
  "\<forall>b\<in>set bs. b < 256 \<Longrightarrow>
   escaped_segment (concat (map escape_octet bs) @ r) = escaped_segment r"
  by (induction bs)
     (simp_all add: escape_octet_def is_hex_hex_digit less_mult_imp_div_less)

lemma escaped_segment_escape_code_point:
  "cp < 0x200000 \<Longrightarrow> escaped_segment (escape_code_point cp @ r) = escaped_segment r"
  by (simp add: escape_code_point_def escaped_segment_escape_octets utf8_octets_bytes)

lemma is_hex_unescaped: "is_hex x \<Longrightarrow> uriUnescaped (of_char x)"
  by (auto simp: is_hex_def uriUnescaped_def Let_def)

lemma escaped_segment_chars:
  "escaped_segment s \<Longrightarrow> x \<in> set s \<Longrightarrow> uriUnescaped (of_char x) \<or> x = CHR ''%''"
  by (induction s rule: escaped_segment.induct)
     (auto simp: is_hex_unescaped split: if_splits list.splits)

lemma Encode_round_trip:
  "Encode us = Inr r \<Longrightarrow> \<forall>u\<in>set us. u < 0x10000 \<Longrightarrow>
   decode_units r = Some us \<and> escaped_segment r"
proof (induction us arbitrary: r rule: Encode.induct)
  case 1
  then show ?case
    by (simp add: decode_units_def)
next
  case (2 c cs)
  from "2.prems"(2) have bound: "c < 0x10000" and rest: "\<forall>u\<in>set cs. u < 0x10000"
    by simp_all
  consider (unescaped) "uriUnescaped c"
    | (trailing) "\<not> uriUnescaped c" "isTrailingSurrogate c"
    | (leading) "\<not> uriUnescaped c" "\<not> isTrailingSurrogate c" "isLeadingSurrogate c"
    | (other) "\<not> uriUnescaped c" "\<not> isTrailingSurrogate c" "\<not> isLeadingSurrogate c"
    by blast
  then show ?case
  proof cases
    case unescaped
    with "2.prems"(1) obtain r' where r': "Encode cs = Inr r'" and r: "r = char_of c # r'"
      by (cases "Encode cs") (simp_all add: Encode_unescaped)
    from "2.IH"(1) [OF unescaped r' rest]
    have "decode_units r' = Some cs" and "escaped_segment r'"
      by simp_all
    then have "decode_units r = Some (c # cs)" and "escaped_segment r"
      unfolding r decode_units_unescaped [OF unescaped]
        escaped_segment_unescaped [OF unescaped]
      by simp_all
    then show ?thesis
      by simp
  next
    case trailing
    with "2.prems"(1) show ?thesis
      by (simp add: Encode_trailing)
  next
    case leading
    show ?thesis
    proof (cases cs)
      case Nil
      with leading "2.prems"(1) show ?thesis
        by (simp add: Encode_leading_last)
    next
      case (Cons d ds)
      show ?thesis
      proof (cases "isTrailingSurrogate d")
        case False
        with leading Cons "2.prems"(1) show ?thesis
          by (simp add: Encode_leading_unpaired)
      next
        case True
        with leading Cons "2.prems"(1) obtain r' where r': "Encode ds = Inr r'"
          and r: "r = escape_code_point (UTF16SurrogatePairToCodePoint c d) @ r'"
          by (cases "Encode ds") (simp_all add: Encode_pair)
        from rest Cons have "\<forall>u\<in>set ds. u < 0x10000"
          by simp
        with "2.IH"(2) [OF leading Cons True r']
        have "decode_units r' = Some ds \<and> escaped_segment r'"
          by simp
        with surrogate_pair [OF leading(3) True] show ?thesis
          by (simp add: r Cons decode_units_escape_code_point
                escaped_segment_escape_code_point)
      qed
    qed
  next
    case other
    with "2.prems"(1) obtain r' where r': "Encode cs = Inr r'"
      and r: "r = escape_code_point c @ r'"
      by (cases "Encode cs") (simp_all add: Encode_other)
    from bound have "utf16_units c = [c]" and "c < 0x200000"
      by (simp_all add: utf16_units_def)
    with "2.IH"(3) [OF other r' rest] show ?thesis
      by (simp add: r decode_units_escape_code_point escaped_segment_escape_code_point)
  qed
qed

lemma encodeURIComponent_round_trip:
  assumes "encodeURIComponent s = Inr r"
  shows "decode_segment r = Some s" and "escaped_segment r"
proof -
  have "\<forall>u\<in>set (map unat s). u < 0x10000"
    using unsigned_less [where ?'a = nat and ?'b = 16] by auto
  with assms have both: "decode_units r = Some (map unat s) \<and> escaped_segment r"
    unfolding encodeURIComponent_def by (rule Encode_round_trip)
  then show "decode_segment r = Some s"
    by (simp add: decode_segment_def comp_def)
  from both show "escaped_segment r"
    by simp
qed

lemma encodeURIComponent_reserved:
  assumes "encodeURIComponent s = Inr r"
  shows "set r \<inter> {CHR ''/'', CHR ''?'', CHR ''#'', CHR '' ''} = {}"
proof -
  have "\<not> (uriUnescaped (of_char x) \<or> x = CHR ''%'')"
    if "x \<in> {CHR ''/'', CHR ''?'', CHR ''#'', CHR '' ''}" for x
    using that by (auto simp: uriUnescaped_def)
  then show ?thesis
    using escaped_segment_chars [OF encodeURIComponent_round_trip(2) [OF assms]] by blast
qed

lemma encodeURIComponent_well_formed:
  "(\<exists>r. encodeURIComponent s = Inr r) = well_formed (map unat s)"
  by (simp add: encodeURIComponent_def Encode_well_formed)

lemma encodeURIComponent_fails: "encodeURIComponent s = Inl e \<Longrightarrow> e = URIError"
  unfolding encodeURIComponent_def by (rule Encode_fails)

subsection \<open>Responses that are not ok\<close>

text \<open>
  For a response outside 200 to 299 whose body does not parse, and for one whose body is a
  JSON object, \<^verbatim>\<open>request\<close> raises the error with the status and the code of the body; the
  message is the body's \<^verbatim>\<open>message\<close> when that is truthy (a non-empty string, for a
  string) and \<^verbatim>\<open>Request failed with status N\<close> otherwise.
\<close>

lemma remote_error_unparseable_body:
  assumes "fst (invoke this fetch op) = [req]" and "fetch req = Inr r"
    and "\<not> ok r" and "json_body r = None"
  shows "snd (invoke this fetch op) =
     Inl (ApiError (JStr (''Request failed with status '' @ string_of_nat (status r)))
            (status r) None)"
  using assms by (simp add: invoke_result error_of_response_def truthy_def)

lemma remote_error_object_body:
  assumes "fst (invoke this fetch op) = [req]" and "fetch req = Inr r"
    and "\<not> ok r" and "json_body r = Some (JObj kvs)"
  shows "snd (invoke this fetch op) =
     Inl (ApiError
            (case map_of kvs ''message'' of
               None \<Rightarrow> JStr (''Request failed with status '' @ string_of_nat (status r))
             | Some m \<Rightarrow>
                 if truthy_json m then m
                 else JStr (''Request failed with status '' @ string_of_nat (status r)))
            (status r) (map_of kvs ''code''))"
  using assms
  by (simp add: invoke_result error_of_response_def truthy_def split: option.splits)

lemma remote_error_carries_status:
  assumes "fst (invoke this fetch op) = [req]" and "fetch req = Inr r"
    and "\<not> ok r" and "json_body r \<noteq> Some JNull"
  shows "\<exists>m c. snd (invoke this fetch op) = Inl (ApiError m (status r) c)"
proof (cases "json_body r")
  case None
  with assms show ?thesis
    by (simp add: invoke_result error_of_response_def)
next
  case (Some v)
  with assms have "v \<noteq> JNull" by simp
  then obtain x where "property v ''message'' = Inr x"
    by (cases v) simp_all
  moreover from \<open>v \<noteq> JNull\<close> obtain y where "property v ''code'' = Inr y"
    by (cases v) simp_all
  ultimately show ?thesis
    using assms Some by (simp add: invoke_result error_of_response_def)
qed

text \<open>
  \<^bold>\<open>C1.\<close> The claim: for every response that is not 2xx, to any operation, the client
  raises an error that carries the remote status code, the error code of the body when
  there is one, and the body's message or else the fallback \<^verbatim>\<open>Request failed with status N\<close>;
  a body that is not JSON still gives this error.

  The lemmas above give the error in full for a body that does not parse and for a body
  that is a JSON object, and give that the status is carried for every body other than
  \<^verbatim>\<open>null\<close>. On an error body that is the JSON text
  \<^verbatim>\<open>null\<close> the code departs from the claim: \<^verbatim>\<open>response.json()\<close> resolves to \<^verbatim>\<open>null\<close>, the
  \<^verbatim>\<open>catch\<close> that supplies the empty payload is not entered, and reading
  \<^verbatim>\<open>errorData.message\<close> throws a \<^verbatim>\<open>TypeError\<close>, which has neither the status nor a
  message of the service. The theorem evaluates \<^verbatim>\<open>getUser\<close> at a 500 response with that
  body.
\<close>

theorem null_error_body_raises_TypeError:
  "invoke sample_client (respond_with \<lparr> status = 500, json_body = Some JNull \<rparr>) GetUser =
     ([\<lparr> req_method = GET, req_url = ''https://staging.example.com/api/v1/user'',
         req_headers = sample_headers, req_body = None \<rparr>],
      Inl TypeError)"
  by code_simp

subsection \<open>The guard of \<^verbatim>\<open>analyzeDesign\<close>\<close>

text \<open>
  \<^bold>\<open>C2\<close>, as the claim states it, fails: it makes \<^verbatim>\<open>analyzeDesign\<close> raise the input
  error unless exactly one of \<^verbatim>\<open>imageUrl\<close> and \<^verbatim>\<open>imageBase64\<close> is present. With both
  present the guard lets the call through: the request is issued, with both fields in its
  body, and the answer of the service is returned.
\<close>

theorem analyzeDesign_both_images_sent:
  "analyzeDesign sample_client (respond_with \<lparr> status = 200, json_body = Some (JObj []) \<rparr>)
       both_images =
     ([\<lparr> req_method = POST, req_url = ''https://staging.example.com/api/v1/analyze'',
         req_headers = sample_headers, req_body = Some (AnalyzeBody both_images) \<rparr>],
      Inr (Some (JObj [])))"
  by (simp add: analyzeDesign_def request_def Let_def respond_with_def ok_def
        sample_client_def sample_headers_def both_images_def truthy_str_def)

text \<open>
  \<^bold>\<open>C2\<close>, amended: \<^verbatim>\<open>analyzeDesign\<close> raises the error
  \<^verbatim>\<open>Either imageUrl or imageBase64 is required\<close>, with no request issued, if and only if
  neither image reference is present, an empty string counting as absent. When at least
  one is present, also when both are, it issues exactly one request, the POST of the
  options to \<^verbatim>\<open>/api/v1/analyze\<close>.
\<close>

theorem analyzeDesign_guard:
  "((fst (analyzeDesign this fetch options) = []
      \<and> snd (analyzeDesign this fetch options)
          = Inl (Error ''Either imageUrl or imageBase64 is required''))
     = ((imageUrl options = None \<or> imageUrl options = Some [])
        \<and> (imageBase64 options = None \<or> imageBase64 options = Some [])))
   \<and> (truthy_str (imageUrl options) \<or> truthy_str (imageBase64 options) \<longrightarrow>
        fst (analyzeDesign this fetch options) =
          [\<lparr> req_method = POST, req_url = this_baseUrl this @ ''/api/v1/analyze'',
             req_headers = [(''x-api-key'', this_apiKey this),
                            (''Content-Type'', ''application/json''),
                            (''User-Agent'', ''culturecoded-sdk-js/1.0.0'')],
             req_body = Some (AnalyzeBody options) \<rparr>])"
  by (auto simp: analyzeDesign_def request_sent request_no_plain_error truthy_str_def
        split: option.splits)

theorem analyzeDesign_guard_witness:
  "analyzeDesign sample_client (respond_with \<lparr> status = 200, json_body = Some (JObj []) \<rparr>)
       no_image
     = ([], Inl (Error ''Either imageUrl or imageBase64 is required''))
   \<and> fst (analyzeDesign sample_client
            (respond_with \<lparr> status = 200, json_body = Some (JObj []) \<rparr>) both_images) =
       [\<lparr> req_method = POST, req_url = ''https://staging.example.com/api/v1/analyze'',
          req_headers = sample_headers, req_body = Some (AnalyzeBody both_images) \<rparr>]"
proof -
  have absent: "(imageUrl no_image = None \<or> imageUrl no_image = Some [])
      \<and> (imageBase64 no_image = None \<or> imageBase64 no_image = Some [])"
    by (simp add: no_image_def)
  have present: "truthy_str (imageUrl both_images) \<or> truthy_str (imageBase64 both_images)"
    by (simp add: both_images_def truthy_str_def)
  from absent present
    analyzeDesign_guard [of sample_client
      "respond_with \<lparr> status = 200, json_body = Some (JObj []) \<rparr>" no_image]
    analyzeDesign_guard [of sample_client
      "respond_with \<lparr> status = 200, json_body = Some (JObj []) \<rparr>" both_images]
  show ?thesis
    by (simp add: sample_client_def sample_headers_def prod_eq_iff)
qed

subsection \<open>Construction\<close>

text \<open>
  \<^bold>\<open>C3.\<close> Constructing the client without an API key, the key being absent or the empty
  string, fails with the error \<^verbatim>\<open>API key is required\<close>; constructing it with a non-empty
  key succeeds and the client holds that key. The constructor is a function of the
  configuration alone: it has no access to the network, so it fails before any network
  activity.
\<close>

theorem constructor_requires_apiKey:
  "(apiKey config = None \<or> apiKey config = Some [] \<longrightarrow>
      constructor config =
        Inl (Error ''API key is required. Get one at https://culturecoded.io/api-docs''))
   \<and> (\<forall>k. apiKey config = Some k \<and> k \<noteq> [] \<longrightarrow>
        (\<exists>this. constructor config = Inr this \<and> this_apiKey this = k))"
  by (auto simp: constructor_def truthy_str_def)

theorem constructor_requires_apiKey_witness:
  "constructor \<lparr> apiKey = None, baseUrl = Some ''https://staging.example.com'' \<rparr> =
     Inl (Error ''API key is required. Get one at https://culturecoded.io/api-docs'')
   \<and> (\<exists>this. constructor \<lparr> apiKey = Some ''cc_live_key'', baseUrl = None \<rparr> = Inr this
        \<and> this_apiKey this = ''cc_live_key'')"
  using
    constructor_requires_apiKey
      [of "\<lparr> apiKey = None, baseUrl = Some ''https://staging.example.com'' \<rparr>"]
    constructor_requires_apiKey [of "\<lparr> apiKey = Some ''cc_live_key'', baseUrl = None \<rparr>"]
  by simp

text \<open>
  \<^bold>\<open>C4\<close>, as the claim states it, fails: a base URL is used verbatim, but not without
  duplication of a trailing slash. Every path begins with a slash and \<^verbatim>\<open>request\<close> joins
  base URL and path as they are, so a base URL that ends in a slash gives a request URL
  with two slashes at the joint.
\<close>

theorem trailing_slash_doubled:
  "constructor \<lparr> apiKey = Some ''cc_live_key'', baseUrl = Some ''https://staging.example.com/'' \<rparr>
     = Inr \<lparr> this_apiKey = ''cc_live_key'', this_baseUrl = ''https://staging.example.com/'' \<rparr>
   \<and> map req_url
         (fst (getUser
                \<lparr> this_apiKey = ''cc_live_key'',
                  this_baseUrl = ''https://staging.example.com/'' \<rparr>
                (respond_with \<lparr> status = 200, json_body = Some (JObj []) \<rparr>))) =
       [''https://staging.example.com//api/v1/user'']"
  by (simp add: constructor_def truthy_str_def getUser_def request_sent)

text \<open>
  \<^bold>\<open>C4\<close>, amended: if no base URL is supplied, the property being absent or the empty
  string, the client uses the production endpoint \<^verbatim>\<open>https://culturecoded.replit.app\<close>;
  a base URL the caller supplies is stored as it is, and it is used verbatim as the prefix
  of every request URL, which is that string followed by the path of the operation. The
  path begins with a slash, and a slash at the end of the base URL is kept.
\<close>

theorem request_url_prefix:
  assumes "constructor config = Inr this" and "fst (invoke this fetch op) = [req]"
  shows "this_baseUrl this =
           (case baseUrl config of
              None \<Rightarrow> ''https://culturecoded.replit.app''
            | Some u \<Rightarrow> if u = [] then ''https://culturecoded.replit.app'' else u)
         \<and> (\<exists>method path.
              operation_route op = Inr (method, CHR ''/'' # path)
              \<and> req_url req = this_baseUrl this @ CHR ''/'' # path
              \<and> (\<forall>b. this_baseUrl this = b @ ''/'' \<longrightarrow> req_url req = b @ ''//'' @ path))"
proof
  from assms(1) show "this_baseUrl this =
           (case baseUrl config of
              None \<Rightarrow> ''https://culturecoded.replit.app''
            | Some u \<Rightarrow> if u = [] then ''https://culturecoded.replit.app'' else u)"
    by (auto simp: constructor_def truthy_str_def split: if_splits option.splits)
  from assms(2) obtain verb route_path
    where route: "operation_route op = Inr (verb, route_path)"
    by (cases "operation_route op") (auto simp: invoke_sent)
  then obtain rest where slash: "route_path = CHR ''/'' # rest"
    using operation_route_slash by blast
  from assms(2) route have "req_url req = this_baseUrl this @ route_path"
    by (auto simp: invoke_sent)
  with route slash show "\<exists>method path.
      operation_route op = Inr (method, CHR ''/'' # path)
      \<and> req_url req = this_baseUrl this @ CHR ''/'' # path
      \<and> (\<forall>b. this_baseUrl this = b @ ''/'' \<longrightarrow> req_url req = b @ ''//'' @ path)"
    by simp
qed

theorem request_url_prefix_witness:
  "constructor \<lparr> apiKey = Some ''cc_live_key'', baseUrl = Some ''https://staging.example.com'' \<rparr>
     = Inr sample_client
   \<and> fst (invoke sample_client (respond_with \<lparr> status = 204, json_body = None \<rparr>)
            (GetAnalysis ''a42'')) =
       [\<lparr> req_method = GET, req_url = ''https://staging.example.com/api/v1/analyses/a42'',
          req_headers = sample_headers, req_body = None \<rparr>]
   \<and> this_baseUrl sample_client = ''https://staging.example.com''"
proof -
  have made: "constructor
      \<lparr> apiKey = Some ''cc_live_key'', baseUrl = Some ''https://staging.example.com'' \<rparr>
      = Inr sample_client"
    by (simp add: constructor_def truthy_str_def sample_client_def)
  have sent: "fst (invoke sample_client (respond_with \<lparr> status = 204, json_body = None \<rparr>)
            (GetAnalysis ''a42'')) =
       [\<lparr> req_method = GET, req_url = ''https://staging.example.com/api/v1/analyses/a42'',
          req_headers = sample_headers, req_body = None \<rparr>]"
    by (subst invoke_sent) (simp add: sample_client_def sample_headers_def)
  from conjunct1 [OF request_url_prefix [OF made sent]]
  have base: "this_baseUrl sample_client = ''https://staging.example.com''"
    by simp
  from made sent base show ?thesis
    by (intro conjI)
qed

subsection \<open>Export\<close>

text \<open>
  \<^bold>\<open>C5.\<close> \<^verbatim>\<open>exportAnalysis\<close> fails with the error
  \<^verbatim>\<open>figmaFileKey is required for Figma exports\<close>, with no request issued, if and only if
  the format is \<^verbatim>\<open>figma\<close> and no file key is supplied, that is, \<^verbatim>\<open>figmaFileKey\<close> is
  absent or the empty string. An export in the format \<^verbatim>\<open>pdf\<close> or \<^verbatim>\<open>csv\<close> never needs
  the key: it issues the POST of its options to \<^verbatim>\<open>/api/v1/exports\<close>.
\<close>

theorem exportAnalysis_guard:
  "((fst (exportAnalysis this fetch options) = []
      \<and> snd (exportAnalysis this fetch options)
          = Inl (Error ''figmaFileKey is required for Figma exports''))
     = (format options = Figma
        \<and> (figmaFileKey options = None \<or> figmaFileKey options = Some [])))
   \<and> (format options = Pdf \<or> format options = Csv \<longrightarrow>
        fst (exportAnalysis this fetch options) =
          [\<lparr> req_method = POST, req_url = this_baseUrl this @ ''/api/v1/exports'',
             req_headers = [(''x-api-key'', this_apiKey this),
                            (''Content-Type'', ''application/json''),
                            (''User-Agent'', ''culturecoded-sdk-js/1.0.0'')],
             req_body = Some (ExportBody options) \<rparr>])"
  by (auto simp: exportAnalysis_def request_sent request_no_plain_error truthy_str_def
        split: option.splits)

theorem exportAnalysis_guard_witness:
  "exportAnalysis sample_client (respond_with \<lparr> status = 200, json_body = Some (JObj []) \<rparr>)
       \<lparr> analysisId = ''a42'', format = Figma, figmaFileKey = None \<rparr>
     = ([], Inl (Error ''figmaFileKey is required for Figma exports''))
   \<and> fst (exportAnalysis sample_client
            (respond_with \<lparr> status = 200, json_body = Some (JObj []) \<rparr>)
            \<lparr> analysisId = ''a42'', format = Pdf, figmaFileKey = None \<rparr>) =
       [\<lparr> req_method = POST, req_url = ''https://staging.example.com/api/v1/exports'',
          req_headers = sample_headers,
          req_body = Some (ExportBody
                             \<lparr> analysisId = ''a42'', format = Pdf, figmaFileKey = None \<rparr>) \<rparr>]"
  using
    exportAnalysis_guard [of sample_client
      "respond_with \<lparr> status = 200, json_body = Some (JObj []) \<rparr>"
      "\<lparr> analysisId = ''a42'', format = Figma, figmaFileKey = None \<rparr>"]
    exportAnalysis_guard [of sample_client
      "respond_with \<lparr> status = 200, json_body = Some (JObj []) \<rparr>"
      "\<lparr> analysisId = ''a42'', format = Pdf, figmaFileKey = None \<rparr>"]
  by (simp add: sample_client_def sample_headers_def prod_eq_iff)

text \<open>
  \<^bold>\<open>C6.\<close> For every analysis id and file key, \<^verbatim>\<open>exportToFigma(id, key)\<close> issues the
  requests and returns the result of \<^verbatim>\<open>exportAnalysis\<close> called with that id, the format
  \<^verbatim>\<open>figma\<close> and that key: for a non-empty key the one POST to \<^verbatim>\<open>/api/v1/exports\<close>
  whose body is that options object.
\<close>

theorem exportToFigma_is_exportAnalysis:
  "fst (exportToFigma this fetch id' key) =
     fst (exportAnalysis this fetch
            \<lparr> analysisId = id', format = Figma, figmaFileKey = Some key \<rparr>)
   \<and> snd (exportToFigma this fetch id' key) =
     snd (exportAnalysis this fetch
            \<lparr> analysisId = id', format = Figma, figmaFileKey = Some key \<rparr>)
   \<and> fst (exportToFigma this fetch id' key) =
     (if key = [] then []
      else [\<lparr> req_method = POST, req_url = this_baseUrl this @ ''/api/v1/exports'',
              req_headers = [(''x-api-key'', this_apiKey this),
                             (''Content-Type'', ''application/json''),
                             (''User-Agent'', ''culturecoded-sdk-js/1.0.0'')],
              req_body = Some (ExportBody
                \<lparr> analysisId = id', format = Figma, figmaFileKey = Some key \<rparr>) \<rparr>])"
  by (simp add: exportToFigma_def exportAnalysis_def request_sent truthy_str_def)

theorem exportToFigma_is_exportAnalysis_witness:
  "exportToFigma sample_client (respond_with \<lparr> status = 200, json_body = Some (JObj []) \<rparr>)
       ''a42'' ''fk9'' =
     exportAnalysis sample_client (respond_with \<lparr> status = 200, json_body = Some (JObj []) \<rparr>)
       \<lparr> analysisId = ''a42'', format = Figma, figmaFileKey = Some ''fk9'' \<rparr>
   \<and> fst (exportToFigma sample_client
            (respond_with \<lparr> status = 200, json_body = Some (JObj []) \<rparr>) ''a42'' ''fk9'') =
       [\<lparr> req_method = POST, req_url = ''https://staging.example.com/api/v1/exports'',
          req_headers = sample_headers,
          req_body = Some (ExportBody
            \<lparr> analysisId = ''a42'', format = Figma, figmaFileKey = Some ''fk9'' \<rparr>) \<rparr>]"
proof -
  let ?net = "respond_with \<lparr> status = 200, json_body = Some (JObj []) \<rparr>"
  let ?options = "\<lparr> analysisId = ''a42'', format = Figma, figmaFileKey = Some ''fk9'' \<rparr>"
  note same = exportToFigma_is_exportAnalysis [of sample_client ?net "''a42''" "''fk9''"]
  from same have sent: "fst (exportToFigma sample_client ?net ''a42'' ''fk9'') =
      fst (exportAnalysis sample_client ?net ?options)"
    by (rule conjunct1)
  from same have result: "snd (exportToFigma sample_client ?net ''a42'' ''fk9'') =
      snd (exportAnalysis sample_client ?net ?options)"
    by (rule conjunct2 [THEN conjunct1])
  have shape: "fst (exportToFigma sample_client ?net ''a42'' ''fk9'') =
       [\<lparr> req_method = POST, req_url = ''https://staging.example.com/api/v1/exports'',
          req_headers = sample_headers, req_body = Some (ExportBody ?options) \<rparr>]"
    using conjunct2 [OF conjunct2 [OF same]]
    by (simp add: sample_client_def sample_headers_def)
  from sent result have equal: "exportToFigma sample_client ?net ''a42'' ''fk9'' =
      exportAnalysis sample_client ?net ?options"
    by (rule prod_eqI)
  from equal shape show ?thesis
    by (rule conjI)
qed

subsection \<open>Successful responses\<close>

text \<open>
  \<^bold>\<open>C7.\<close> When the response to the request of any operation, \<^verbatim>\<open>deleteAnalysis\<close> among
  them, has the status 204, the call resolves to \<^verbatim>\<open>undefined\<close>: it raises no error, and
  the result does not depend on the body, which may well not parse.
\<close>

theorem no_content_resolves_undefined:
  assumes "fst (invoke this fetch op) = [req]" and "fetch req = Inr r" and "status r = 204"
  shows "snd (invoke this fetch op) = Inr None"
  using assms by (simp add: invoke_result ok_def)

theorem no_content_resolves_undefined_witness:
  "fst (invoke sample_client (respond_with \<lparr> status = 204, json_body = None \<rparr>)
          (DeleteAnalysis ''a42'')) =
     [\<lparr> req_method = DELETE, req_url = ''https://staging.example.com/api/v1/analyses/a42'',
        req_headers = sample_headers, req_body = None \<rparr>]
   \<and> snd (invoke sample_client (respond_with \<lparr> status = 204, json_body = None \<rparr>)
          (DeleteAnalysis ''a42'')) = Inr None"
proof -
  let ?r = "\<lparr> status = 204, json_body = None \<rparr>"
  let ?req = "\<lparr> req_method = DELETE,
                req_url = ''https://staging.example.com/api/v1/analyses/a42'',
                req_headers = sample_headers, req_body = None \<rparr>"
  have sent: "fst (invoke sample_client (respond_with ?r) (DeleteAnalysis ''a42'')) = [?req]"
    by (subst invoke_sent) (simp add: sample_client_def sample_headers_def)
  have answer: "respond_with ?r ?req = Inr ?r"
    by (simp add: respond_with_def)
  have "status ?r = 204"
    by simp
  with sent answer
  have "snd (invoke sample_client (respond_with ?r) (DeleteAnalysis ''a42'')) = Inr None"
    by (rule no_content_resolves_undefined)
  with sent show ?thesis
    by (rule conjI)
qed

text \<open>
  \<^bold>\<open>C10.\<close> The tolerance of a body that is not JSON is for responses that are not ok
  only: when the response to the request of any operation has a 2xx status other than 204
  and its body does not parse, the call fails with the rejection of \<^verbatim>\<open>response.json()\<close>
  itself, the \<^verbatim>\<open>SyntaxError\<close>, and not with the error that carries a status.
\<close>

theorem ok_unparseable_body_raises_SyntaxError:
  assumes "fst (invoke this fetch op) = [req]" and "fetch req = Inr r"
    and "ok r" and "status r \<noteq> 204" and "json_body r = None"
  shows "snd (invoke this fetch op) = Inl SyntaxError"
  using assms by (simp add: invoke_result)

theorem ok_unparseable_body_raises_SyntaxError_witness:
  "ok \<lparr> status = 200, json_body = None \<rparr>
   \<and> snd (invoke sample_client (respond_with \<lparr> status = 200, json_body = None \<rparr>) GetUsage)
       = Inl SyntaxError"
proof -
  let ?r = "\<lparr> status = 200, json_body = None \<rparr>"
  let ?req = "\<lparr> req_method = GET, req_url = ''https://staging.example.com/api/v1/stats'',
                req_headers = sample_headers, req_body = None \<rparr>"
  have sent: "fst (invoke sample_client (respond_with ?r) GetUsage) = [?req]"
    by (subst invoke_sent) (simp add: sample_client_def sample_headers_def)
  have answer: "respond_with ?r ?req = Inr ?r"
    by (simp add: respond_with_def)
  have ok: "ok ?r"
    by (simp add: ok_def)
  have "status ?r \<noteq> 204" and "json_body ?r = None"
    by simp_all
  with sent answer ok
  have "snd (invoke sample_client (respond_with ?r) GetUsage) = Inl SyntaxError"
    by (rule ok_unparseable_body_raises_SyntaxError)
  with ok show ?thesis
    by (rule conjI)
qed

subsection \<open>The transport\<close>

text \<open>
  \<^bold>\<open>C9\<close>, as the claim states it, fails: not every call issues a request. A call of
  \<^verbatim>\<open>analyzeDesign\<close> without an image is stopped by the guard, and a call of
  \<^verbatim>\<open>getEthnicGroups\<close> with an unpaired surrogate in the country is stopped by the
  \<^verbatim>\<open>URIError\<close> of \<^verbatim>\<open>encodeURIComponent\<close>; neither calls \<^verbatim>\<open>fetch\<close>.
\<close>

theorem rejected_calls_issue_no_request:
  "invoke sample_client (respond_with \<lparr> status = 200, json_body = Some (JObj []) \<rparr>)
       (AnalyzeDesign no_image)
     = ([], Inl (Error ''Either imageUrl or imageBase64 is required''))
   \<and> invoke sample_client (respond_with \<lparr> status = 200, json_body = Some (JObj []) \<rparr>)
       (GetEthnicGroups [0x4E, 0xDC00])
     = ([], Inl URIError)"
  by (simp add: analyzeDesign_def no_image_def truthy_str_def getEthnicGroups_def
        encodeURIComponent_def Encode_unescaped Encode_trailing uriUnescaped_def
        isTrailingSurrogate_def)

text \<open>
  \<^bold>\<open>C9\<close>, amended: a call that is rejected before the transport issues no request and
  fails with the error of the rejection, which is the error of the guard of
  \<^verbatim>\<open>analyzeDesign\<close>, the error of the guard of \<^verbatim>\<open>exportAnalysis\<close> (which
  \<^verbatim>\<open>exportToFigma\<close> goes through), or the \<^verbatim>\<open>URIError\<close> of escaping the country. Every
  other call issues exactly one HTTP request, whatever the network answers. The URL of
  the request is the base URL of the client followed by the path of the operation; its
  headers are \<^verbatim>\<open>x-api-key\<close> with the key of the client, \<^verbatim>\<open>Content-Type\<close> with
  \<^verbatim>\<open>application/json\<close> and \<^verbatim>\<open>User-Agent\<close> with \<^verbatim>\<open>culturecoded-sdk-js/1.0.0\<close>; it has a
  body, the options object of the call, exactly when the operation takes one, which
  \<^verbatim>\<open>analyzeDesign\<close>, \<^verbatim>\<open>exportAnalysis\<close> and \<^verbatim>\<open>exportToFigma\<close> do.
\<close>

theorem one_request_per_call:
  "fst (invoke this fetch op) =
     (case operation_route op of
        Inl e \<Rightarrow> []
      | Inr (method, path) \<Rightarrow>
          [\<lparr> req_method = method, req_url = this_baseUrl this @ path,
             req_headers = [(''x-api-key'', this_apiKey this),
                            (''Content-Type'', ''application/json''),
                            (''User-Agent'', ''culturecoded-sdk-js/1.0.0'')],
             req_body = typed_input op \<rparr>])
   \<and> (\<forall>e. operation_route op = Inl e \<longrightarrow>
          snd (invoke this fetch op) = Inl e
          \<and> (e = Error ''Either imageUrl or imageBase64 is required''
             \<or> e = Error ''figmaFileKey is required for Figma exports''
             \<or> e = URIError))
   \<and> (typed_input op \<noteq> None) =
       (case op of
          AnalyzeDesign options \<Rightarrow> True
        | ExportAnalysis options \<Rightarrow> True
        | ExportToFigma id' key \<Rightarrow> True
        | _ \<Rightarrow> False)"
proof (intro conjI allI impI)
  show "fst (invoke this fetch op) =
     (case operation_route op of
        Inl e \<Rightarrow> []
      | Inr (method, path) \<Rightarrow>
          [\<lparr> req_method = method, req_url = this_baseUrl this @ path,
             req_headers = [(''x-api-key'', this_apiKey this),
                            (''Content-Type'', ''application/json''),
                            (''User-Agent'', ''culturecoded-sdk-js/1.0.0'')],
             req_body = typed_input op \<rparr>])"
    by (rule invoke_sent)
  show "(typed_input op \<noteq> None) =
       (case op of
          AnalyzeDesign options \<Rightarrow> True
        | ExportAnalysis options \<Rightarrow> True
        | ExportToFigma id' key \<Rightarrow> True
        | _ \<Rightarrow> False)"
    by (cases op) simp_all
next
  fix e
  assume rejected: "operation_route op = Inl e"
  then show "snd (invoke this fetch op) = Inl e"
    by (simp add: invoke_rejected)
  from rejected show "e = Error ''Either imageUrl or imageBase64 is required''
      \<or> e = Error ''figmaFileKey is required for Figma exports''
      \<or> e = URIError"
    by (cases op) (auto split: if_splits sum.splits dest: encodeURIComponent_fails)
qed

theorem one_request_per_call_witness:
  "fst (invoke sample_client (respond_with \<lparr> status = 500, json_body = None \<rparr>)
          (AnalyzeDesign both_images)) =
     [\<lparr> req_method = POST, req_url = ''https://staging.example.com/api/v1/analyze'',
        req_headers = sample_headers, req_body = Some (AnalyzeBody both_images) \<rparr>]
   \<and> fst (invoke sample_client (respond_with \<lparr> status = 500, json_body = None \<rparr>)
          GetRegions) =
     [\<lparr> req_method = GET, req_url = ''https://staging.example.com/api/v1/regions'',
        req_headers = sample_headers, req_body = None \<rparr>]
   \<and> snd (invoke sample_client (respond_with \<lparr> status = 500, json_body = None \<rparr>)
          (ExportToFigma ''a42'' [])) =
     Inl (Error ''figmaFileKey is required for Figma exports'')"
proof -
  let ?net = "respond_with \<lparr> status = 500, json_body = None \<rparr>"
  have pass: "truthy_str (imageUrl both_images)"
    by (simp add: both_images_def truthy_str_def)
  have "fst (invoke sample_client ?net (AnalyzeDesign both_images)) =
     [\<lparr> req_method = POST, req_url = ''https://staging.example.com/api/v1/analyze'',
        req_headers = sample_headers, req_body = Some (AnalyzeBody both_images) \<rparr>]"
    by (subst conjunct1 [OF one_request_per_call])
       (simp add: pass sample_client_def sample_headers_def)
  moreover
  have "fst (invoke sample_client ?net GetRegions) =
     [\<lparr> req_method = GET, req_url = ''https://staging.example.com/api/v1/regions'',
        req_headers = sample_headers, req_body = None \<rparr>]"
    by (subst conjunct1 [OF one_request_per_call])
       (simp add: sample_client_def sample_headers_def)
  moreover
  have "operation_route (ExportToFigma ''a42'' []) =
      Inl (Error ''figmaFileKey is required for Figma exports'')"
    by simp
  with conjunct1 [OF conjunct2 [OF one_request_per_call [of sample_client ?net
      "ExportToFigma ''a42'' []"]]]
  have "snd (invoke sample_client ?net (ExportToFigma ''a42'' [])) =
     Inl (Error ''figmaFileKey is required for Figma exports'')"
    by blast
  ultimately show ?thesis
    by (intro conjI)
qed

subsection \<open>The path of \<^verbatim>\<open>getEthnicGroups\<close>\<close>

text \<open>
  \<^bold>\<open>C8\<close>, as the claim states it, fails: not every country string is placed into a
  request path. On a country with an unpaired surrogate \<^verbatim>\<open>encodeURIComponent\<close> throws
  the \<^verbatim>\<open>URIError\<close>, and \<^verbatim>\<open>getEthnicGroups\<close> fails with it before any request.
\<close>

theorem unpaired_surrogate_raises_URIError:
  "getEthnicGroups sample_client (respond_with \<lparr> status = 200, json_body = Some (JArr []) \<rparr>)
       [0xD800]
     = ([], Inl URIError)"
  by (simp add: getEthnicGroups_def encodeURIComponent_def Encode_leading_last
        uriUnescaped_def isLeadingSurrogate_def)

text \<open>
  \<^bold>\<open>C8\<close>, amended: for every country string in which every surrogate is paired,
  \<^verbatim>\<open>getEthnicGroups(country)\<close> issues the GET whose URL is the base URL, the route
  \<^verbatim>\<open>/api/v1/ethnic-groups/\<close> and the country escaped by \<^verbatim>\<open>encodeURIComponent\<close>. The
  escaped country is one path segment: it is made of unescaped characters and \<^verbatim>\<open>%XX\<close>
  triplets, it contains no slash, question mark, hash or space, and decoding it gives the
  country back. For a country string with an unpaired surrogate the call fails with the
  \<^verbatim>\<open>URIError\<close> and issues no request. (The URL is the string the client hands to
  \<^verbatim>\<open>fetch\<close>.)
\<close>

theorem getEthnicGroups_path_segment:
  "(case encodeURIComponent country of
      Inl e \<Rightarrow> getEthnicGroups this fetch country = ([], Inl URIError)
    | Inr segment \<Rightarrow>
        fst (getEthnicGroups this fetch country) =
          [\<lparr> req_method = GET,
             req_url = this_baseUrl this @ ''/api/v1/ethnic-groups/'' @ segment,
             req_headers = [(''x-api-key'', this_apiKey this),
                            (''Content-Type'', ''application/json''),
                            (''User-Agent'', ''culturecoded-sdk-js/1.0.0'')],
             req_body = None \<rparr>]
        \<and> escaped_segment segment
        \<and> set segment \<inter> {CHR ''/'', CHR ''?'', CHR ''#'', CHR '' ''} = {}
        \<and> decode_segment segment = Some country)
   \<and> (\<exists>segment. encodeURIComponent country = Inr segment) = well_formed (map unat country)"
proof
  show "case encodeURIComponent country of
      Inl e \<Rightarrow> getEthnicGroups this fetch country = ([], Inl URIError)
    | Inr segment \<Rightarrow>
        fst (getEthnicGroups this fetch country) =
          [\<lparr> req_method = GET,
             req_url = this_baseUrl this @ ''/api/v1/ethnic-groups/'' @ segment,
             req_headers = [(''x-api-key'', this_apiKey this),
                            (''Content-Type'', ''application/json''),
                            (''User-Agent'', ''culturecoded-sdk-js/1.0.0'')],
             req_body = None \<rparr>]
        \<and> escaped_segment segment
        \<and> set segment \<inter> {CHR ''/'', CHR ''?'', CHR ''#'', CHR '' ''} = {}
        \<and> decode_segment segment = Some country"
  proof (cases "encodeURIComponent country")
    case (Inl e)
    then have "e = URIError"
      by (rule encodeURIComponent_fails)
    with Inl show ?thesis
      by (simp add: getEthnicGroups_def)
  next
    case (Inr segment)
    with encodeURIComponent_round_trip [OF Inr] encodeURIComponent_reserved [OF Inr]
    show ?thesis
      by (simp add: getEthnicGroups_def request_sent)
  qed
  show "(\<exists>segment. encodeURIComponent country = Inr segment) = well_formed (map unat country)"
    by (rule encodeURIComponent_well_formed)
qed

theorem getEthnicGroups_path_segment_witness:
  "encodeURIComponent sao_tome = Inr ''S%C3%A3o%20Tom%C3%A9''
   \<and> map req_url
        (fst (getEthnicGroups sample_client
                (respond_with \<lparr> status = 200, json_body = None \<rparr>) sao_tome)) =
       [''https://staging.example.com/api/v1/ethnic-groups/S%C3%A3o%20Tom%C3%A9'']
   \<and> decode_segment ''S%C3%A3o%20Tom%C3%A9'' = Some sao_tome"
proof -
  have enc: "encodeURIComponent sao_tome = Inr ''S%C3%A3o%20Tom%C3%A9''"
    by (simp add: sao_tome_def encodeURIComponent_def Encode.simps uriUnescaped_def
          isLeadingSurrogate_def isTrailingSurrogate_def escape_code_point_def
          utf8_octets_def escape_octet_def hex_digit_def char_of_eq_iff)
  note segment = conjunct1 [OF getEthnicGroups_path_segment [where country = sao_tome
      and this = sample_client
      and fetch = "respond_with \<lparr> status = 200, json_body = None \<rparr>"]]
  from segment have "map req_url
        (fst (getEthnicGroups sample_client
                (respond_with \<lparr> status = 200, json_body = None \<rparr>) sao_tome)) =
       [''https://staging.example.com/api/v1/ethnic-groups/S%C3%A3o%20Tom%C3%A9'']"
    by (simp add: enc sample_client_def)
  moreover
  from segment have "decode_segment ''S%C3%A3o%20Tom%C3%A9'' = Some sao_tome"
    by (simp add: enc)
  ultimately show ?thesis
    using enc by (intro conjI)
qed

end
